theory Spec2Isabelle
  imports Complex_Main "HOL-Library.AList" "HOL-Library.Sublist"
begin

section \<open>The JavaScript values the page computes with\<close>

subsection \<open>Numbers\<close>

text \<open>
  A JavaScript \<^verbatim>\<open>number\<close> is \<open>NaN\<close>, an infinity or a finite value. Finite values are
  kept as exact rationals: the rounding of every result to the nearest binary64 value and
  the sign of zero are outside this model. Every theorem below is stated through the
  operations of this section, so it reads the same over binary64.
\<close>

datatype number = NaN | Fin rat | PosInf | NegInf

text \<open>The comparison \<^verbatim>\<open>a <= b\<close>: false as soon as one side is \<open>NaN\<close>.\<close>

fun num_le :: "number \<Rightarrow> number \<Rightarrow> bool" where
  "num_le NaN b = False"
| "num_le a NaN = False"
| "num_le NegInf b = True"
| "num_le a PosInf = True"
| "num_le (Fin a) (Fin b) = (a \<le> b)"
| "num_le PosInf b = False"
| "num_le a NegInf = False"

text \<open>The comparison \<^verbatim>\<open>a < b\<close>.\<close>

fun num_less :: "number \<Rightarrow> number \<Rightarrow> bool" where
  "num_less NaN b = False"
| "num_less a NaN = False"
| "num_less (Fin a) (Fin b) = (a < b)"
| "num_less PosInf b = False"
| "num_less a NegInf = False"
| "num_less NegInf b = True"
| "num_less a PosInf = True"

text \<open>\<^verbatim>\<open>a + b\<close>.\<close>

fun num_add :: "number \<Rightarrow> number \<Rightarrow> number" where
  "num_add NaN b = NaN"
| "num_add a NaN = NaN"
| "num_add (Fin a) (Fin b) = Fin (a + b)"
| "num_add PosInf NegInf = NaN"
| "num_add NegInf PosInf = NaN"
| "num_add PosInf b = PosInf"
| "num_add a PosInf = PosInf"
| "num_add NegInf b = NegInf"
| "num_add a NegInf = NegInf"

text \<open>Unary minus and \<^verbatim>\<open>a - b\<close>.\<close>

fun num_neg :: "number \<Rightarrow> number" where
  "num_neg NaN = NaN"
| "num_neg (Fin a) = Fin (- a)"
| "num_neg PosInf = NegInf"
| "num_neg NegInf = PosInf"

definition num_sub :: "number \<Rightarrow> number \<Rightarrow> number" where
  "num_sub a b = num_add a (num_neg b)"

text \<open>\<^verbatim>\<open>a * b\<close>: an infinity times zero is \<open>NaN\<close>.\<close>

definition inf_of_sign :: "rat \<Rightarrow> number \<Rightarrow> number" where
  "inf_of_sign a i = (if a = 0 then NaN else if 0 < a then i else num_neg i)"

fun num_mul :: "number \<Rightarrow> number \<Rightarrow> number" where
  "num_mul NaN b = NaN"
| "num_mul a NaN = NaN"
| "num_mul (Fin a) (Fin b) = Fin (a * b)"
| "num_mul (Fin a) i = inf_of_sign a i"
| "num_mul i (Fin b) = inf_of_sign b i"
| "num_mul PosInf i = i"
| "num_mul NegInf i = num_neg i"

text \<open>
  \<^verbatim>\<open>a / b\<close>. A finite zero divisor is read as \<open>+0\<close>: the page only ever divides by
  the literal \<open>100\<close>.
\<close>

fun num_div :: "number \<Rightarrow> number \<Rightarrow> number" where
  "num_div NaN b = NaN"
| "num_div a NaN = NaN"
| "num_div (Fin a) (Fin b) = (if b = 0 then inf_of_sign a PosInf else Fin (a / b))"
| "num_div (Fin a) i = Fin 0"
| "num_div i (Fin b) = (if 0 \<le> b then i else num_neg i)"
| "num_div i j = NaN"

text \<open>\<^verbatim>\<open>Math.round\<close>: the nearest integer, a tie going up.\<close>

fun Math_round :: "number \<Rightarrow> number" where
  "Math_round (Fin a) = Fin (of_int \<lfloor>a + 1 / 2\<rfloor>)"
| "Math_round x = x"

text \<open>Truthiness of a number: \<open>0\<close> and \<open>NaN\<close> are falsy.\<close>

definition truthy :: "number \<Rightarrow> bool" where
  "truthy x = (x \<noteq> NaN \<and> x \<noteq> Fin 0)"

subsection \<open>Strings\<close>

text \<open>
  A string is a list of code units; a \<^typ>\<open>char\<close> stands for the code units
  \<open>U+0000\<close> to \<open>U+00FF\<close>. The white space of \<^verbatim>\<open>String.prototype.trim\<close> and of
  \<^verbatim>\<open>parseFloat\<close> in that range is TAB, LF, VT, FF, CR, SP and NBSP.
\<close>

definition isWhiteSpace :: "char \<Rightarrow> bool" where
  "isWhiteSpace c = (c \<in> set [CHR 0x09, CHR 0x0A, CHR 0x0B, CHR 0x0C, CHR 0x0D, CHR 0x20, CHR 0xA0])"

definition trim :: "string \<Rightarrow> string" where
  "trim s = rev (dropWhile isWhiteSpace (rev (dropWhile isWhiteSpace s)))"

definition isDigit :: "char \<Rightarrow> bool" where
  "isDigit c = (c \<in> set ''0123456789'')"

definition digitVal :: "char \<Rightarrow> nat" where
  "digitVal c = of_char c - 48"

definition digitChar :: "nat \<Rightarrow> char" where
  "digitChar n = ''0123456789'' ! n"

text \<open>The value of a string of decimal digits, most significant first.\<close>

definition decVal :: "string \<Rightarrow> nat" where
  "decVal s = foldl (\<lambda>a c. 10 * a + digitVal c) 0 s"

text \<open>The decimal digits of a natural number, as \<^verbatim>\<open>Number.prototype.toString\<close> writes them.\<close>

fun digits :: "nat \<Rightarrow> string" where
  "digits n = (if n < 10 then [digitChar n] else digits (n div 10) @ [digitChar (n mod 10)])"

declare digits.simps [simp del]

text \<open>\<^verbatim>\<open>n.toString()\<close> for an integer \<open>n\<close> (the milliseconds of \<^verbatim>\<open>Date.now()\<close>).\<close>

definition toString :: "int \<Rightarrow> string" where
  "toString n = (if n < 0 then CHR ''-'' # digits (nat (- n)) else digits (nat n))"

subsection \<open>\<^verbatim>\<open>parseFloat\<close>\<close>

text \<open>
  \<^verbatim>\<open>parseFloat\<close> skips leading white space and reads the longest prefix that is a
  decimal literal: a sign, then \<^verbatim>\<open>Infinity\<close>, or digits with an optional fraction and an
  optional exponent. What follows the literal is ignored; with no literal the result is
  \<open>NaN\<close>.
\<close>

definition readSign :: "string \<Rightarrow> bool \<times> string" where
  "readSign s = (case s of
       [] \<Rightarrow> (False, s)
     | c # r \<Rightarrow> if c = CHR ''-'' then (True, r) else if c = CHR ''+'' then (False, r) else (False, s))"

definition readExponent :: "string \<Rightarrow> int" where
  "readExponent s = (case s of
       [] \<Rightarrow> 0
     | c # r \<Rightarrow>
         if c = CHR ''e'' \<or> c = CHR ''E'' then
           (case readSign r of (neg, r') \<Rightarrow>
              let ds = takeWhile isDigit r' in
              if ds = [] then 0 else if neg then - int (decVal ds) else int (decVal ds))
         else 0)"

definition scale10 :: "rat \<Rightarrow> int \<Rightarrow> rat" where
  "scale10 m e = (if 0 \<le> e then m * 10 ^ nat e else m / 10 ^ nat (- e))"

definition parseFloat :: "string \<Rightarrow> number" where
  "parseFloat s =
     (case readSign (dropWhile isWhiteSpace s) of (neg, u) \<Rightarrow>
        if prefix ''Infinity'' u then (if neg then NegInf else PosInf)
        else
          let ip = takeWhile isDigit u;
              r1 = dropWhile isDigit u;
              dot = (r1 \<noteq> [] \<and> hd r1 = CHR ''.'');
              fp = (if dot then takeWhile isDigit (tl r1) else []);
              r2 = (if dot then dropWhile isDigit (tl r1) else r1)
          in if ip = [] \<and> fp = [] then NaN
             else
               let m = scale10 (of_nat (decVal (ip @ fp))) (readExponent r2 - int (length fp))
               in Fin (if neg then - m else m))"

section \<open>The data of the page\<close>

datatype kind = income | expense

text \<open>The interface \<^verbatim>\<open>Transaction\<close>.\<close>

record Transaction =
  t_id :: string
  t_amount :: number
  t_date :: string
  t_description :: string
  t_type :: kind
  t_category :: string
  t_createdAt :: string

definition CATEGORIES :: "string list" where
  "CATEGORIES = [''Food & Dining'', ''Transportation'', ''Shopping'', ''Entertainment'',
     ''Bills & Utilities'', ''Healthcare'', ''Education'', ''Travel'', ''Income'', ''Other'']"

text \<open>The state \<^verbatim>\<open>formData\<close>: what the form's controls hold, all text but the kind.\<close>

record FormData =
  f_amount :: string
  f_date :: string
  f_description :: string
  f_type :: kind
  f_category :: string

text \<open>
  An object used as a dictionary (\<^verbatim>\<open>Record<string, _>\<close>) is an association list in
  insertion order: \<^const>\<open>AList.update\<close> overwrites a key where it stands and appends a new
  one, and \<^const>\<open>map_of\<close> reads a key. Keys that are integers or names of
  \<^verbatim>\<open>Object.prototype\<close> are outside this model; the page uses field names, month labels and
  category labels.
\<close>

type_synonym 'v dict = "(string \<times> 'v) list"

text \<open>The state of the component \<^verbatim>\<open>Home\<close>.\<close>

record State =
  transactions :: "Transaction list"
  isAddDialogOpen :: bool
  isEditDialogOpen :: bool
  editingTransaction :: "Transaction option"
  formData :: FormData
  errors :: "string dict"

definition emptyForm :: FormData where
  "emptyForm = \<lparr>f_amount = [], f_date = [], f_description = [], f_type = expense, f_category = []\<rparr>"

definition initialState :: State where
  "initialState = \<lparr>transactions = [], isAddDialogOpen = False, isEditDialogOpen = False,
     editingTransaction = None, formData = emptyForm, errors = []\<rparr>"

section \<open>Validation\<close>

text \<open>
  The object \<^verbatim>\<open>newErrors\<close> that \<^verbatim>\<open>validateForm\<close> builds: four tests, one after the
  other, each adding its own key. An empty string is falsy, so \<^verbatim>\<open>!formData.amount\<close> is
  \<open>f_amount fd = []\<close>.
\<close>

definition newErrors :: "FormData \<Rightarrow> string dict" where
  "newErrors fd =
     (let e0 = [];
          e1 = (if f_amount fd = [] \<or> num_le (parseFloat (f_amount fd)) (Fin 0)
                then AList.update ''amount'' ''Amount must be greater than 0'' e0 else e0);
          e2 = (if f_date fd = []
                then AList.update ''date'' ''Date is required'' e1 else e1);
          e3 = (if trim (f_description fd) = []
                then AList.update ''description'' ''Description is required'' e2 else e2);
          e4 = (if f_category fd = []
                then AList.update ''category'' ''Category is required'' e3 else e3)
      in e4)"

text \<open>
  \<^verbatim>\<open>validateForm\<close> stores the errors in the state and answers whether there are none
  (\<^verbatim>\<open>Object.keys(newErrors).length === 0\<close>).
\<close>

definition validateForm :: "State \<Rightarrow> bool \<times> State" where
  "validateForm s =
     (let e = newErrors (formData s)
      in (length (map fst e) = 0, s\<lparr>errors := e\<rparr>))"

section \<open>The handlers\<close>

definition resetForm :: "State \<Rightarrow> State" where
  "resetForm s = s\<lparr>formData := emptyForm, errors := []\<rparr>"

text \<open>
  \<^verbatim>\<open>a || b\<close> on strings: the empty string is falsy.
\<close>

definition str_or :: "string \<Rightarrow> string \<Rightarrow> string" where
  "str_or a b = (if a \<noteq> [] then a else b)"

text \<open>
  \<^verbatim>\<open>handleSubmit\<close>. The two readings of the clock are arguments: \<open>nowMs\<close> is
  \<^verbatim>\<open>Date.now()\<close> and \<open>nowIso\<close> is \<^verbatim>\<open>new Date().toISOString()\<close>. With
  \<^verbatim>\<open>editingTransaction\<close> set this is the edit flow, otherwise the add flow.
\<close>

definition handleSubmit :: "int \<Rightarrow> string \<Rightarrow> State \<Rightarrow> State" where
  "handleSubmit nowMs nowIso s =
     (case validateForm s of (ok, s1) \<Rightarrow>
        if \<not> ok then s1
        else
          let fd = formData s1;
              et = editingTransaction s1;
              transaction = \<lparr>
                t_id = (case et of Some e \<Rightarrow> str_or (t_id e) (toString nowMs) | None \<Rightarrow> toString nowMs),
                t_amount = parseFloat (f_amount fd),
                t_date = f_date fd,
                t_description = trim (f_description fd),
                t_type = f_type fd,
                t_category = f_category fd,
                t_createdAt = (case et of Some e \<Rightarrow> str_or (t_createdAt e) nowIso | None \<Rightarrow> nowIso)\<rparr>
          in resetForm
               (case et of
                  Some e \<Rightarrow>
                    s1\<lparr>transactions := map (\<lambda>t. if t_id t = t_id e then transaction else t) (transactions s1),
                       isEditDialogOpen := False,
                       editingTransaction := None\<rparr>
                | None \<Rightarrow>
                    s1\<lparr>transactions := transactions s1 @ [transaction],
                       isAddDialogOpen := False\<rparr>))"

text \<open>
  \<^verbatim>\<open>handleEdit\<close> opens the edit dialog on a transaction of the list. The text that
  \<^verbatim>\<open>transaction.amount.toString()\<close> puts in the amount field is the argument \<open>amountText\<close>:
  nothing below depends on it, and the user may retype it.
\<close>

definition handleEdit :: "string \<Rightarrow> Transaction \<Rightarrow> State \<Rightarrow> State" where
  "handleEdit amountText transaction s =
     s\<lparr>editingTransaction := Some transaction,
       formData := \<lparr>f_amount = amountText, f_date = t_date transaction,
                     f_description = t_description transaction, f_type = t_type transaction,
                     f_category = t_category transaction\<rparr>,
       isEditDialogOpen := True\<rparr>"

definition handleDelete :: "string \<Rightarrow> State \<Rightarrow> State" where
  "handleDelete i s = s\<lparr>transactions := filter (\<lambda>t. t_id t \<noteq> i) (transactions s)\<rparr>"

section \<open>Dates\<close>

text \<open>
  A valid JavaScript \<^verbatim>\<open>Date\<close>, read in local time: the full year, the month from
  \<open>0\<close> (January) to \<open>11\<close>, the day of the month and the milliseconds since midnight.
  The invalid date is \<open>None\<close> of \<open>Date option\<close>.
\<close>

record Date =
  d_year :: int
  d_month :: nat
  d_day :: nat
  d_ms :: nat

datatype error = SyntaxError | RangeError

definition isLeapYear :: "int \<Rightarrow> bool" where
  "isLeapYear y = (y mod 400 = 0 \<or> (y mod 4 = 0 \<and> y mod 100 \<noteq> 0))"

definition daysInMonth :: "int \<Rightarrow> nat \<Rightarrow> nat" where
  "daysInMonth y m =
     (if m = 1 then (if isLeapYear y then 29 else 28)
      else if m = 3 \<or> m = 5 \<or> m = 8 \<or> m = 10 then 30 else 31)"

definition validDate :: "Date \<Rightarrow> bool" where
  "validDate d = (d_month d < 12 \<and> 1 \<le> d_day d \<and> d_day d \<le> daysInMonth (d_year d) (d_month d)
     \<and> d_ms d < 86400000)"

text \<open>
  \<^verbatim>\<open>a.getTime() <= b.getTime()\<close> for two valid dates: the order of their local fields,
  most significant first.
\<close>

definition date_le :: "Date \<Rightarrow> Date \<Rightarrow> bool" where
  "date_le a b =
     (d_year a < d_year b \<or> (d_year a = d_year b \<and>
       (d_month a < d_month b \<or> (d_month a = d_month b \<and>
         (d_day a < d_day b \<or> (d_day a = d_day b \<and> d_ms a \<le> d_ms b))))))"

text \<open>
  \<^verbatim>\<open>parseISO\<close> of date-fns on the calendar form \<^verbatim>\<open>YYYY-MM-DD\<close>, which is what a date
  control holds: local midnight of that day, or the invalid date when the month or the day
  does not exist. date-fns reads further ISO 8601 forms (week dates, times, short forms);
  they are outside this model, which answers the invalid date for them, and the theorems on
  dates ask for the calendar form.
\<close>

definition calendarForm :: "string \<Rightarrow> bool" where
  "calendarForm s =
     (length s = 10 \<and> s ! 4 = CHR ''-'' \<and> s ! 7 = CHR ''-''
      \<and> list_all isDigit (take 4 s @ take 2 (drop 5 s) @ drop 8 s))"

definition parseISO :: "string \<Rightarrow> Date option" where
  "parseISO s =
     (if calendarForm s
      then
        let y = int (decVal (take 4 s));
            m = decVal (take 2 (drop 5 s));
            d = decVal (drop 8 s)
        in if 1 \<le> m \<and> m \<le> 12 \<and> 1 \<le> d \<and> d \<le> daysInMonth y (m - 1)
           then Some \<lparr>d_year = y, d_month = m - 1, d_day = d, d_ms = 0\<rparr>
           else None
      else None)"


definition startOfMonth :: "Date \<Rightarrow> Date" where
  "startOfMonth d = d\<lparr>d_day := 1, d_ms := 0\<rparr>"

definition endOfMonth :: "Date \<Rightarrow> Date" where
  "endOfMonth d = d\<lparr>d_day := daysInMonth (d_year d) (d_month d), d_ms := 86399999\<rparr>"

text \<open>
  \<^verbatim>\<open>isWithinInterval\<close>: a \<^verbatim>\<open>RangeError\<close> when the interval ends before it starts;
  an invalid date is in no interval.
\<close>

definition isWithinInterval :: "Date option \<Rightarrow> Date \<Rightarrow> Date \<Rightarrow> error + bool" where
  "isWithinInterval date start end =
     (if \<not> date_le start end then Inl RangeError
      else Inr (case date of None \<Rightarrow> False | Some d \<Rightarrow> date_le start d \<and> date_le d end))"





section \<open>The aggregates\<close>

text \<open>\<^verbatim>\<open>Math.round(amount * 100) / 100\<close>.\<close>

definition round2 :: "number \<Rightarrow> number" where
  "round2 amount = num_div (Math_round (num_mul amount (Fin 100))) (Fin 100)"

subsection \<open>\<^verbatim>\<open>getMonthlyData\<close>\<close>




subsection \<open>\<^verbatim>\<open>getCategoryData\<close>\<close>

text \<open>\<^verbatim>\<open>categoryData[c] || 0\<close>: a missing key, \<open>0\<close> and \<open>NaN\<close> all give \<open>0\<close>.\<close>

definition num_or0 :: "number option \<Rightarrow> number" where
  "num_or0 v = (case v of None \<Rightarrow> Fin 0 | Some x \<Rightarrow> if truthy x then x else Fin 0)"

definition addCategory :: "number dict \<Rightarrow> Transaction \<Rightarrow> number dict" where
  "addCategory categoryData transaction =
     AList.update (t_category transaction)
       (num_add (num_or0 (map_of categoryData (t_category transaction))) (t_amount transaction))
       categoryData"

definition getCategoryData :: "Transaction list \<Rightarrow> (string \<times> number) list" where
  "getCategoryData ts =
     map (\<lambda>(category, amount). (category, round2 amount))
       (foldl addCategory [] (filter (\<lambda>t. t_type t = expense) ts))"

subsection \<open>The totals of the current month\<close>

text \<open>
  \<^verbatim>\<open>currentMonthTransactions\<close>: the filter of the collection by
  \<^verbatim>\<open>isWithinInterval\<close>, which may raise.
\<close>

fun currentMonthTransactions :: "Date \<Rightarrow> Transaction list \<Rightarrow> error + Transaction list" where
  "currentMonthTransactions currentMonth [] = Inr []"
| "currentMonthTransactions currentMonth (t # rest) =
     (case isWithinInterval (parseISO (t_date t)) (startOfMonth currentMonth) (endOfMonth currentMonth) of
        Inl e \<Rightarrow> Inl e
      | Inr keep \<Rightarrow>
          (case currentMonthTransactions currentMonth rest of
             Inl e \<Rightarrow> Inl e
           | Inr r \<Rightarrow> Inr (if keep then t # r else r)))"

record Totals =
  totalIncome :: number
  totalExpenses :: number
  netIncome :: number

text \<open>\<^verbatim>\<open>.reduce((sum, t) => sum + t.amount, 0)\<close>.\<close>

definition sumAmounts :: "Transaction list \<Rightarrow> number" where
  "sumAmounts ts = foldl (\<lambda>sum t. num_add sum (t_amount t)) (Fin 0) ts"

definition totals :: "Date \<Rightarrow> Transaction list \<Rightarrow> error + Totals" where
  "totals currentMonth ts =
     (case currentMonthTransactions currentMonth ts of
        Inl e \<Rightarrow> Inl e
      | Inr cm \<Rightarrow>
          let ti = sumAmounts (filter (\<lambda>t. t_type t = income) cm);
              te = sumAmounts (filter (\<lambda>t. t_type t = expense) cm)
          in Inr \<lparr>totalIncome = ti, totalExpenses = te, netIncome = num_sub ti te\<rparr>)"

section \<open>Loading the stored collection\<close>

text \<open>
  A JavaScript value as \<^verbatim>\<open>JSON.parse\<close> builds it. A string is kept as its list of code
  units, since an escape \<^verbatim>\<open>\uXXXX\<close> reaches beyond \<open>U+00FF\<close>; an object is kept as its
  members in insertion order.
\<close>

datatype json =
  JNull
| JBool bool
| JNumber number
| JString "nat list"
| JArray "json list"
| JObject "(nat list \<times> json) list"

datatype token =
  TLBrace | TRBrace | TLBracket | TRBracket | TColon | TComma
| TString "nat list" | TNumber number | TTrue | TFalse | TNull

text \<open>JSON white space is TAB, LF, CR and SP only.\<close>

definition isJSONWhiteSpace :: "char \<Rightarrow> bool" where
  "isJSONWhiteSpace c = (c \<in> set [CHR 0x09, CHR 0x0A, CHR 0x0D, CHR 0x20])"

definition hexVal :: "char \<Rightarrow> nat option" where
  "hexVal c =
     (if isDigit c then Some (digitVal c)
      else if c \<in> set ''abcdef'' then Some (of_char c - 87)
      else if c \<in> set ''ABCDEF'' then Some (of_char c - 55)
      else None)"

text \<open>The code unit of a one-letter escape.\<close>

definition escapeVal :: "char \<Rightarrow> nat option" where
  "escapeVal c =
     (if c = CHR 0x22 then Some 34 else if c = CHR 0x5C then Some 92
      else if c = CHR ''/'' then Some 47 else if c = CHR ''b'' then Some 8
      else if c = CHR ''f'' then Some 12 else if c = CHR ''n'' then Some 10
      else if c = CHR ''r'' then Some 13 else if c = CHR ''t'' then Some 9
      else None)"

text \<open>
  What follows a backslash in a string: the code unit it stands for and the rest of the
  text. \<^verbatim>\<open>\u\<close> takes four hexadecimal digits.
\<close>

definition readEscape :: "string \<Rightarrow> (nat \<times> string) option" where
  "readEscape s =
     (case s of
        [] \<Rightarrow> None
      | e # r \<Rightarrow>
          if e = CHR ''u'' then
            (case r of
               h1 # h2 # h3 # h4 # r' \<Rightarrow>
                 (case (hexVal h1, hexVal h2, hexVal h3, hexVal h4) of
                    (Some a, Some b, Some c, Some d) \<Rightarrow> Some (((a * 16 + b) * 16 + c) * 16 + d, r')
                  | _ \<Rightarrow> None)
             | _ \<Rightarrow> None)
          else map_option (\<lambda>n. (n, r)) (escapeVal e))"

lemma readEscape_shorter: "readEscape s = Some (n, r) \<Longrightarrow> length r < length s"
  by (auto simp: readEscape_def split: list.splits if_splits option.splits)

text \<open>
  The rest of a string after its opening quote: up to the closing quote, with escapes
  decoded. A control character, a bad escape or the end of the text is an error.
\<close>

function readString :: "string \<Rightarrow> nat list \<Rightarrow> (nat list \<times> string) option" where
  "readString [] acc = None"
| "readString (c # r) acc =
     (if c = CHR 0x22 then Some (rev acc, r)
      else if (of_char c :: nat) < 32 then None
      else if c = CHR 0x5C then
        (case readEscape r of
           None \<Rightarrow> None
         | Some (n, r') \<Rightarrow> readString r' (n # acc))
      else readString r (of_char c # acc))"
  by pat_completeness auto

termination
  by (relation "measure (\<lambda>(s, acc). length s)") (auto dest: readEscape_shorter)

text \<open>An exponent part, if one stands at the head of the text.\<close>

definition readExp :: "string \<Rightarrow> int \<times> string" where
  "readExp s = (case s of
       [] \<Rightarrow> (0, s)
     | c # r \<Rightarrow>
         if c = CHR ''e'' \<or> c = CHR ''E'' then
           (case readSign r of (neg, r') \<Rightarrow>
              let ds = takeWhile isDigit r' in
              if ds = [] then (0, s)
              else (if neg then - int (decVal ds) else int (decVal ds), dropWhile isDigit r'))
         else (0, s))"

text \<open>
  A JSON number at the head of the text: an optional minus, an integer part without a
  leading zero, then a fraction and an exponent if they are complete.
\<close>

definition readNumber :: "string \<Rightarrow> (number \<times> string) option" where
  "readNumber s =
     (let neg = (s \<noteq> [] \<and> hd s = CHR ''-'');
          u = (if neg then tl s else s);
          ip = (if u \<noteq> [] \<and> hd u = CHR ''0'' then ''0'' else takeWhile isDigit u);
          r1 = drop (length ip) u;
          dot = (r1 \<noteq> [] \<and> hd r1 = CHR ''.'' \<and> takeWhile isDigit (tl r1) \<noteq> []);
          fp = (if dot then takeWhile isDigit (tl r1) else []);
          r2 = (if dot then dropWhile isDigit (tl r1) else r1)
      in if ip = [] then None
         else (case readExp r2 of (e, r3) \<Rightarrow>
           let m = scale10 (of_nat (decVal (ip @ fp))) (e - int (length fp))
           in Some (Fin (if neg then - m else m), r3)))"

lemma readString_shorter: "readString s acc = Some (v, r) \<Longrightarrow> length r < length s"
proof (induction s acc rule: readString.induct)
  case (1 acc)
  then show ?case by simp
next
  case (2 c r' acc)
  show ?case
  proof (cases "c = CHR 0x5C")
    case True
    with "2.prems" obtain n r'' where e: "readEscape r' = Some (n, r'')"
      and rs: "readString r'' (n # acc) = Some (v, r)"
      by (auto split: if_splits option.splits)
    from True e rs "2.prems" have "length r < length r''"
      by (intro "2.IH"(1)) (auto split: if_splits)
    with readEscape_shorter [OF e] show ?thesis by simp
  next
    case False
    with "2.prems" "2.IH"(2) show ?thesis
      by (auto split: if_splits)
  qed
qed

lemma readExp_shorter: "readExp s = (e, r) \<Longrightarrow> length r \<le> length s"
  by (auto simp: readExp_def readSign_def Let_def length_dropWhile_le le_SucI
      split: list.splits if_splits prod.splits)

lemma readNumber_shorter: "readNumber s = Some (v, r) \<Longrightarrow> length r < length s"
proof -
  assume a: "readNumber s = Some (v, r)"
  define neg where "neg = (s \<noteq> [] \<and> hd s = CHR ''-'')"
  define u where "u = (if neg then tl s else s)"
  define ip where "ip = (if u \<noteq> [] \<and> hd u = CHR ''0'' then ''0'' else takeWhile isDigit u)"
  define r1 where "r1 = drop (length ip) u"
  define dot where "dot = (r1 \<noteq> [] \<and> hd r1 = CHR ''.'' \<and> takeWhile isDigit (tl r1) \<noteq> [])"
  define r2 where "r2 = (if dot then dropWhile isDigit (tl r1) else r1)"
  from a have ip: "ip \<noteq> []" and r: "r = snd (readExp r2)"
    by (auto simp: readNumber_def Let_def neg_def u_def ip_def r1_def dot_def r2_def
        split: if_splits prod.splits)
  have "length ip \<le> length u"
    by (auto simp: ip_def length_takeWhile_le) (cases u, auto)
  with ip have "length r1 < length u" by (cases ip) (auto simp: r1_def)
  moreover have "length r2 \<le> length r1"
    by (auto simp: r2_def) (metis length_dropWhile_le length_tl le_trans diff_le_self)
  moreover have "length u \<le> length s" by (simp add: u_def)
  moreover have "length r \<le> length r2"
    using readExp_shorter [of r2] r by (cases "readExp r2") auto
  ultimately show ?thesis by simp
qed

text \<open>
  The tokens of a text, or \<open>None\<close> where no token starts. The literals are
  \<^verbatim>\<open>true\<close>, \<^verbatim>\<open>false\<close> and \<^verbatim>\<open>null\<close>.
\<close>

function tokens :: "string \<Rightarrow> token list option" where
  "tokens [] = Some []"
| "tokens (c # r) =
     (if isJSONWhiteSpace c then tokens r
      else if c = CHR ''{'' then map_option (Cons TLBrace) (tokens r)
      else if c = CHR ''}'' then map_option (Cons TRBrace) (tokens r)
      else if c = CHR ''['' then map_option (Cons TLBracket) (tokens r)
      else if c = CHR '']'' then map_option (Cons TRBracket) (tokens r)
      else if c = CHR '':'' then map_option (Cons TColon) (tokens r)
      else if c = CHR '','' then map_option (Cons TComma) (tokens r)
      else if c = CHR 0x22 then
        (case readString r [] of
           None \<Rightarrow> None
         | Some (str, r') \<Rightarrow> map_option (Cons (TString str)) (tokens r'))
      else if prefix ''true'' (c # r) then map_option (Cons TTrue) (tokens (drop 3 r))
      else if prefix ''false'' (c # r) then map_option (Cons TFalse) (tokens (drop 4 r))
      else if prefix ''null'' (c # r) then map_option (Cons TNull) (tokens (drop 3 r))
      else
        (case readNumber (c # r) of
           None \<Rightarrow> None
         | Some (n, r') \<Rightarrow> map_option (Cons (TNumber n)) (tokens r')))"
  by pat_completeness auto

termination
  by (relation "measure length")
     (auto dest: readString_shorter readNumber_shorter simp: less_Suc_eq_le)

text \<open>
  The grammar, read token by token with the open arrays and objects on a stack. A frame is
  an array with the elements read so far, or an object with its members so far and the key
  whose value is awaited.
\<close>

datatype frame = FArray "json list" | FObject "(nat list \<times> json) list" "nat list"

datatype pstate =
  AwaitValue "frame list"
| AwaitValueOrClose "frame list"
| AwaitKeyOrClose "frame list"
| AwaitKey "(nat list \<times> json) list" "frame list"
| AwaitColon "(nat list \<times> json) list" "nat list" "frame list"
| AfterElement "json list" "frame list"
| AfterMember "(nat list \<times> json) list" "frame list"
| Finished json

text \<open>A value is complete: it is the whole text's, or goes into the innermost open frame.\<close>

fun complete :: "json \<Rightarrow> frame list \<Rightarrow> pstate" where
  "complete v [] = Finished v"
| "complete v (FArray xs # st) = AfterElement (xs @ [v]) st"
| "complete v (FObject ms k # st) = AfterMember (AList.update k v ms) st"

fun startValue :: "frame list \<Rightarrow> token \<Rightarrow> pstate option" where
  "startValue st TLBracket = Some (AwaitValueOrClose st)"
| "startValue st TLBrace = Some (AwaitKeyOrClose st)"
| "startValue st (TString s) = Some (complete (JString s) st)"
| "startValue st (TNumber n) = Some (complete (JNumber n) st)"
| "startValue st TTrue = Some (complete (JBool True) st)"
| "startValue st TFalse = Some (complete (JBool False) st)"
| "startValue st TNull = Some (complete JNull st)"
| "startValue st t = None"

fun step :: "pstate \<Rightarrow> token \<Rightarrow> pstate option" where
  "step (AwaitValue st) t = startValue st t"
| "step (AwaitValueOrClose st) TRBracket = Some (complete (JArray []) st)"
| "step (AwaitValueOrClose st) t = startValue (FArray [] # st) t"
| "step (AwaitKeyOrClose st) TRBrace = Some (complete (JObject []) st)"
| "step (AwaitKeyOrClose st) (TString k) = Some (AwaitColon [] k st)"
| "step (AwaitKey ms st) (TString k) = Some (AwaitColon ms k st)"
| "step (AwaitColon ms k st) TColon = Some (AwaitValue (FObject ms k # st))"
| "step (AfterElement xs st) TComma = Some (AwaitValue (FArray xs # st))"
| "step (AfterElement xs st) TRBracket = Some (complete (JArray xs) st)"
| "step (AfterMember ms st) TComma = Some (AwaitKey ms st)"
| "step (AfterMember ms st) TRBrace = Some (complete (JObject ms) st)"
| "step p t = None"

fun steps :: "pstate \<Rightarrow> token list \<Rightarrow> pstate option" where
  "steps p [] = Some p"
| "steps p (t # ts) = (case step p t of None \<Rightarrow> None | Some p' \<Rightarrow> steps p' ts)"

text \<open>
  \<^verbatim>\<open>JSON.parse(text)\<close>: the value of the text, or a \<^verbatim>\<open>SyntaxError\<close> when the text is
  not one JSON value between optional white space.
\<close>

definition JSON_parse :: "string \<Rightarrow> error + json" where
  "JSON_parse text =
     (case tokens text of
        None \<Rightarrow> Inl SyntaxError
      | Some ts \<Rightarrow>
          (case steps (AwaitValue []) ts of
             Some (Finished v) \<Rightarrow> Inr v
           | _ \<Rightarrow> Inl SyntaxError))"

text \<open>
  The effect that runs when the component mounts. Its argument is what
  \<^verbatim>\<open>localStorage.getItem('finance-transactions')\<close> gives: \<open>None\<close> for \<^verbatim>\<open>null\<close> (no such key)
  or the stored text. Its result is the value that \<^verbatim>\<open>transactions\<close> holds afterwards,
  the initial \<^verbatim>\<open>[]\<close> when \<^verbatim>\<open>setTransactions\<close> is not called, or the error that leaves
  the effect: nothing around \<^verbatim>\<open>JSON.parse\<close> catches, and nothing looks at the shape of
  what it returns.
\<close>

definition load :: "string option \<Rightarrow> error + json" where
  "load savedTransactions =
     (case savedTransactions of
        None \<Rightarrow> Inr (JArray [])
      | Some text \<Rightarrow> if text = [] then Inr (JArray []) else JSON_parse text)"

section \<open>Calendar months as the claims count them\<close>

text \<open>
  The calendar months in a row: month \<open>n\<close> is month \<open>n mod 12\<close> of year \<open>n div 12\<close>, so
  two dates have the same number exactly when they agree on month and year
  (\<open>monthNumber_eq_iff\<close> below).
\<close>

definition monthNumber :: "Date \<Rightarrow> int" where
  "monthNumber d = d_year d * 12 + int (d_month d)"


text \<open>The transaction's date parses and falls in calendar month \<open>n\<close>.\<close>

definition inMonth :: "int \<Rightarrow> Transaction \<Rightarrow> bool" where
  "inMonth n t = (case parseISO (t_date t) of None \<Rightarrow> False | Some d \<Rightarrow> monthNumber d = n)"

section \<open>Example data\<close>

definition exForm :: FormData where
  "exForm = \<lparr>f_amount = ''12.50'', f_date = ''2024-02-03'', f_description = '' Lunch '',
     f_type = expense, f_category = ''Food & Dining''\<rparr>"

definition exBadForm :: FormData where
  "exBadForm = \<lparr>f_amount = ''abc'', f_date = ''2024-02-03'', f_description = ''Lunch'',
     f_type = expense, f_category = ''Food & Dining''\<rparr>"

definition exT1 :: Transaction where
  "exT1 = \<lparr>t_id = ''1706961600000'', t_amount = Fin (25 / 2), t_date = ''2024-02-03'',
     t_description = ''Lunch'', t_type = expense, t_category = ''Food & Dining'',
     t_createdAt = ''2024-02-03T12:00:00.000Z''\<rparr>"

definition exT2 :: Transaction where
  "exT2 = \<lparr>t_id = ''1706961700000'', t_amount = Fin 3000, t_date = ''2024-02-01'',
     t_description = ''Salary'', t_type = income, t_category = ''Income'',
     t_createdAt = ''2024-02-03T12:01:40.000Z''\<rparr>"

definition exT3 :: Transaction where
  "exT3 = \<lparr>t_id = ''1706961800000'', t_amount = Fin (401 / 100), t_date = ''2023-03-15'',
     t_description = ''Train'', t_type = expense, t_category = ''Travel'',
     t_createdAt = ''2024-02-03T12:03:20.000Z''\<rparr>"

definition exState :: State where
  "exState = initialState\<lparr>transactions := [exT1, exT2, exT3]\<rparr>"

definition exDupState :: State where
  "exDupState = initialState\<lparr>transactions := [exT1, exT2, exT3\<lparr>t_id := t_id exT1\<rparr>, exT3]\<rparr>"

definition exForm2 :: FormData where
  "exForm2 = \<lparr>f_amount = ''20'', f_date = ''2024-02-04'', f_description = ''Dinner'',
     f_type = expense, f_category = ''Food & Dining''\<rparr>"


definition exAddState :: State where
  "exAddState = initialState\<lparr>formData := exForm, isAddDialogOpen := True\<rparr>"

text \<open>Two passes through the add flow that read the same millisecond.\<close>

definition exTwiceState :: State where
  "exTwiceState =
     handleSubmit 1706961600000 ''2024-02-03T12:00:00.000Z''
       ((handleSubmit 1706961600000 ''2024-02-03T12:00:00.000Z'' exAddState)\<lparr>formData := exForm2\<rparr>)"

definition exNow :: Date where
  "exNow = \<lparr>d_year = 2024, d_month = 1, d_day = 15, d_ms = 43200000\<rparr>"

definition exT4 :: Transaction where
  "exT4 = \<lparr>t_id = ''1706961900000'', t_amount = Fin 99, t_date = ''2023-02-10'',
     t_description = ''Hotel'', t_type = expense, t_category = ''Travel'',
     t_createdAt = ''2024-02-03T12:05:00.000Z''\<rparr>"

definition exT5 :: Transaction where
  "exT5 = \<lparr>t_id = ''1706962000000'', t_amount = Fin (1 / 200), t_date = ''2024-02-29'',
     t_description = ''Sweet'', t_type = expense, t_category = ''Food & Dining'',
     t_createdAt = ''2024-02-03T12:06:40.000Z''\<rparr>"

definition exTs :: "Transaction list" where
  "exTs = [exT1, exT2, exT3, exT4, exT5]"

text \<open>An expense below half a cent.\<close>

definition exTiny :: Transaction where
  "exTiny = \<lparr>t_id = ''1706962100000'', t_amount = Fin (1 / 250), t_date = ''2024-02-05'',
     t_description = ''Bag'', t_type = expense, t_category = ''Shopping'',
     t_createdAt = ''2024-02-03T12:08:20.000Z''\<rparr>"

lemmas exTs_defs = exTs_def exT1_def exT2_def exT3_def exT4_def exT5_def

text \<open>A stored text: one transaction, three of its fields.\<close>

definition quoted :: "string \<Rightarrow> string" where
  "quoted s = CHR 0x22 # s @ [CHR 0x22]"

definition units :: "string \<Rightarrow> nat list" where
  "units s = map of_char s"

definition exStored :: string where
  "exStored = ''[{'' @ quoted ''id'' @ '':'' @ quoted ''1706961600000'' @ '','' @
     quoted ''amount'' @ '':12.5,'' @ quoted ''type'' @ '':'' @ quoted ''expense'' @ ''}]''"

lemmas ex_defs = exForm_def exBadForm_def exT1_def exT2_def exT3_def exState_def initialState_def emptyForm_def

section \<open>Decimal text\<close>















section \<open>The window of twelve months\<close>

lemma monthNumber_eq_iff:
  "d_month a < 12 \<Longrightarrow> d_month b < 12 \<Longrightarrow>
   (monthNumber a = monthNumber b) = (d_year a = d_year b \<and> d_month a = d_month b)"
  unfolding monthNumber_def by auto arith+





lemma parseISO_Some:
  "parseISO s = Some d \<Longrightarrow>
   d_month d < 12 \<and> 0 \<le> d_year d \<and> 1 \<le> d_day d \<and> d_day d \<le> daysInMonth (d_year d) (d_month d) \<and> d_ms d = 0"
  by (auto simp: parseISO_def Let_def split: if_splits)







definition sumFrom :: "number \<Rightarrow> Transaction list \<Rightarrow> number" where
  "sumFrom v ts = foldl (\<lambda>sum t. num_add sum (t_amount t)) v ts"



lemma sumAmounts_sumFrom: "sumAmounts ts = sumFrom (Fin 0) ts"
  by (simp add: sumAmounts_def sumFrom_def)


section \<open>Sums by category\<close>

lemma pos_add: "num_less (Fin 0) b \<Longrightarrow> a = Fin 0 \<or> num_less (Fin 0) a \<Longrightarrow> num_less (Fin 0) (num_add a b)"
  by (cases a; cases b) auto

lemma pos_truthy: "num_less (Fin 0) x \<Longrightarrow> truthy x"
  by (cases x) (auto simp: truthy_def)

lemma num_or0_cases:
  "\<forall>k v. map_of cd k = Some v \<longrightarrow> num_less (Fin 0) v \<Longrightarrow>
   num_or0 (map_of cd c) = Fin 0 \<or> num_less (Fin 0) (num_or0 (map_of cd c))"
  by (auto simp: num_or0_def split: option.splits)

lemma map_of_addCategory:
  "map_of (addCategory cd t) =
   (map_of cd)(t_category t \<mapsto> num_add (num_or0 (map_of cd (t_category t))) (t_amount t))"
  by (simp add: addCategory_def update_conv')

lemma addCategory_pos:
  assumes "\<forall>k v. map_of cd k = Some v \<longrightarrow> num_less (Fin 0) v" "num_less (Fin 0) (t_amount t)"
  shows "\<forall>k v. map_of (addCategory cd t) k = Some v \<longrightarrow> num_less (Fin 0) v"
proof (intro allI impI)
  fix k v assume kv: "map_of (addCategory cd t) k = Some v"
  show "num_less (Fin 0) v"
  proof (cases "k = t_category t")
    case True
    with kv have "v = num_add (num_or0 (map_of cd (t_category t))) (t_amount t)"
      by (simp add: map_of_addCategory)
    then show ?thesis
      using pos_add [OF assms(2) num_or0_cases [OF assms(1)]] by simp
  next
    case False
    with kv have "map_of cd k = Some v" by (simp add: map_of_addCategory)
    with assms(1) show ?thesis by blast
  qed
qed

lemma foldl_addCategory_pos:
  "\<forall>k v. map_of cd k = Some v \<longrightarrow> num_less (Fin 0) v \<Longrightarrow>
   \<forall>t \<in> set es. num_less (Fin 0) (t_amount t) \<Longrightarrow>
   \<forall>k v. map_of (foldl addCategory cd es) k = Some v \<longrightarrow> num_less (Fin 0) v"
proof (induction es arbitrary: cd)
  case Nil
  then show ?case by simp
next
  case (Cons t es)
  from Cons.prems(2) have a: "num_less (Fin 0) (t_amount t)"
    and q: "\<forall>t \<in> set es. num_less (Fin 0) (t_amount t)" by simp_all
  have p: "\<forall>k v. map_of (addCategory cd t) k = Some v \<longrightarrow> num_less (Fin 0) v"
    using Cons.prems(1) a by (rule addCategory_pos)
  from Cons.IH [OF p q] show ?case by simp
qed

lemma foldl_addCategory_map_of:
  "\<forall>k v. map_of cd k = Some v \<longrightarrow> num_less (Fin 0) v \<Longrightarrow>
   \<forall>t \<in> set es. num_less (Fin 0) (t_amount t) \<Longrightarrow>
   map_of (foldl addCategory cd es) c =
     (if map_of cd c = None \<and> c \<notin> t_category ` set es then None
      else Some (sumFrom (num_or0 (map_of cd c)) (filter (\<lambda>t. t_category t = c) es)))"
proof (induction es arbitrary: cd)
  case Nil
  then show ?case
    by (auto simp: sumFrom_def num_or0_def pos_truthy)
next
  case (Cons t es)
  let ?cd1 = "addCategory cd t"
  let ?w = "num_add (num_or0 (map_of cd (t_category t))) (t_amount t)"
  have p1: "\<forall>k v. map_of ?cd1 k = Some v \<longrightarrow> num_less (Fin 0) v"
    using Cons.prems by (intro addCategory_pos) auto
  have w: "num_less (Fin 0) ?w"
    using Cons.prems pos_add [OF _ num_or0_cases [OF Cons.prems(1)]] by simp
  have IH: "map_of (foldl addCategory ?cd1 es) c =
     (if map_of ?cd1 c = None \<and> c \<notin> t_category ` set es then None
      else Some (sumFrom (num_or0 (map_of ?cd1 c)) (filter (\<lambda>t. t_category t = c) es)))"
    using p1 Cons.prems(2) by (intro Cons.IH) auto
  show ?case
  proof (cases "c = t_category t")
    case True
    then have "map_of ?cd1 c = Some ?w" by (simp add: map_of_addCategory)
    moreover have "num_or0 (Some ?w) = ?w" using pos_truthy [OF w] by (simp add: num_or0_def)
    ultimately show ?thesis using True IH by (simp add: sumFrom_def)
  next
    case False
    then have "map_of ?cd1 c = map_of cd c" by (simp add: map_of_addCategory)
    with False IH show ?thesis by (auto simp: sumFrom_def)
  qed
qed

lemma foldl_addCategory_distinct:
  "distinct (map fst cd) \<Longrightarrow> distinct (map fst (foldl addCategory cd es))"
  by (induction es arbitrary: cd) (simp_all add: addCategory_def distinct_update)

section \<open>The interval of the current month\<close>

lemma startOfMonth_le_endOfMonth: "date_le (startOfMonth now) (endOfMonth now)"
proof -
  have "1 \<le> daysInMonth (d_year now) (d_month now)" by (simp add: daysInMonth_def)
  then show ?thesis by (simp add: date_le_def startOfMonth_def endOfMonth_def) linarith
qed

lemma within_month_iff:
  assumes "parseISO s = Some d"
  shows "(date_le (startOfMonth now) d \<and> date_le d (endOfMonth now))
         = (d_year d = d_year now \<and> d_month d = d_month now)"
proof (cases "d_year d = d_year now \<and> d_month d = d_month now")
  case True
  with parseISO_Some [OF assms] show ?thesis
    by (simp add: date_le_def startOfMonth_def endOfMonth_def) linarith
next
  case False
  then show ?thesis
    by (simp add: date_le_def startOfMonth_def endOfMonth_def) linarith
qed

lemma currentMonthTransactions_eq:
  "d_month now < 12 \<Longrightarrow>
   currentMonthTransactions now ts = Inr (filter (inMonth (monthNumber now)) ts)"
proof (induction ts)
  case Nil
  then show ?case by simp
next
  case (Cons t ts)
  have "isWithinInterval (parseISO (t_date t)) (startOfMonth now) (endOfMonth now)
        = Inr (inMonth (monthNumber now) t)"
  proof (cases "parseISO (t_date t)")
    case None
    then show ?thesis by (simp add: isWithinInterval_def startOfMonth_le_endOfMonth inMonth_def)
  next
    case (Some d)
    from parseISO_Some [OF Some] have "d_month d < 12" by simp
    with Cons.prems have "(monthNumber d = monthNumber now) = (d_year d = d_year now \<and> d_month d = d_month now)"
      by (simp add: monthNumber_eq_iff)
    with Some show ?thesis
      by (simp add: isWithinInterval_def startOfMonth_le_endOfMonth inMonth_def within_month_iff)
  qed
  with Cons show ?case by simp
qed

section \<open>The submit handler, case by case\<close>


lemma handleSubmit_add:
  "fst (validateForm s) \<Longrightarrow> editingTransaction s = None \<Longrightarrow>
   transactions (handleSubmit nowMs nowIso s) =
     transactions s @ [\<lparr>t_id = toString nowMs, t_amount = parseFloat (f_amount (formData s)),
       t_date = f_date (formData s), t_description = trim (f_description (formData s)),
       t_type = f_type (formData s), t_category = f_category (formData s),
       t_createdAt = nowIso\<rparr>]"
  by (simp add: handleSubmit_def validateForm_def Let_def resetForm_def)


lemma handleSubmit_add_editing:
  "editingTransaction s = None \<Longrightarrow> editingTransaction (handleSubmit nowMs nowIso s) = None"
  by (simp add: handleSubmit_def validateForm_def Let_def resetForm_def)


lemma newErrors_exForm: "newErrors exForm = []"
proof -
  have "parseFloat ''12.50'' = Fin (25 / 2)" by code_simp
  moreover have "trim '' Lunch '' = ''Lunch''" by code_simp
  ultimately show ?thesis by (simp add: newErrors_def exForm_def)
qed

lemma newErrors_exForm2: "newErrors exForm2 = []"
proof -
  have "parseFloat ''20'' = Fin 20" by code_simp
  moreover have "trim ''Dinner'' = ''Dinner''" by code_simp
  ultimately show ?thesis by (simp add: newErrors_def exForm2_def)
qed

lemma exTwiceState_transactions:
  "transactions exTwiceState =
     [\<lparr>t_id = ''1706961600000'', t_amount = Fin (25 / 2), t_date = ''2024-02-03'',
       t_description = ''Lunch'', t_type = expense, t_category = ''Food & Dining'',
       t_createdAt = ''2024-02-03T12:00:00.000Z''\<rparr>,
      \<lparr>t_id = ''1706961600000'', t_amount = Fin 20, t_date = ''2024-02-04'',
       t_description = ''Dinner'', t_type = expense, t_category = ''Food & Dining'',
       t_createdAt = ''2024-02-03T12:00:00.000Z''\<rparr>]"
proof -
  let ?s1 = "(handleSubmit 1706961600000 ''2024-02-03T12:00:00.000Z'' exAddState)\<lparr>formData := exForm2\<rparr>"
  have ts: "toString 1706961600000 = ''1706961600000''"
    by (simp add: toString_def digits.simps digitChar_def)
  have pf: "parseFloat ''12.50'' = Fin (25 / 2)" "parseFloat ''20'' = Fin 20" by code_simp+
  have tr: "trim '' Lunch '' = ''Lunch''" "trim ''Dinner'' = ''Dinner''" by code_simp+
  have v0: "fst (validateForm exAddState)"
    by (simp add: validateForm_def exAddState_def newErrors_exForm)
  have e0: "editingTransaction exAddState = None" by (simp add: exAddState_def initialState_def)
  have t0: "transactions exAddState = []" "formData exAddState = exForm"
    by (simp_all add: exAddState_def initialState_def)
  have t1: "transactions ?s1 =
     [\<lparr>t_id = ''1706961600000'', t_amount = Fin (25 / 2), t_date = ''2024-02-03'',
       t_description = ''Lunch'', t_type = expense, t_category = ''Food & Dining'',
       t_createdAt = ''2024-02-03T12:00:00.000Z''\<rparr>]"
    using handleSubmit_add [OF v0 e0, of 1706961600000 "''2024-02-03T12:00:00.000Z''"]
    by (simp add: ts t0) (simp add: exForm_def pf tr)
  have v1: "fst (validateForm ?s1)" by (simp add: validateForm_def newErrors_exForm2)
  have e1: "editingTransaction ?s1 = None" using handleSubmit_add_editing [OF e0] by simp
  show ?thesis
    unfolding exTwiceState_def
    using handleSubmit_add [OF v1 e1, of 1706961600000 "''2024-02-03T12:00:00.000Z''"]
    by (simp add: ts t1) (simp add: exForm2_def pf tr)
qed

section \<open>The claims\<close>

subsection \<open>Deleting\<close>

lemma count_list_filter_keep: "P t \<Longrightarrow> count_list (filter P xs) t = count_list xs t"
  by (induction xs) auto

text \<open>
  \<^bold>\<open>C9\<close>. After \<^verbatim>\<open>handleDelete\<close> of an id the collection holds no record with that id;
  deleting the same id a second time changes nothing; and deleting an id that no record has
  leaves the whole state as it was. The handler returns a state on every input: there is no
  error path.
\<close>

theorem handleDelete_absent_idempotent:
  "(\<forall>t \<in> set (transactions (handleDelete i s)). t_id t \<noteq> i)
   \<and> handleDelete i (handleDelete i s) = handleDelete i s
   \<and> ((\<forall>t \<in> set (transactions s). t_id t \<noteq> i) \<longrightarrow> handleDelete i s = s)"
  by (simp add: handleDelete_def filter_id_conv)

theorem handleDelete_absent_idempotent_witness:
  "transactions (handleDelete ''1706961600000'' exState) = [exT2, exT3]
   \<and> handleDelete ''1706961600000'' (handleDelete ''1706961600000'' exState)
       = handleDelete ''1706961600000'' exState
   \<and> handleDelete ''42'' exState = exState"
proof -
  have none: "\<forall>t \<in> set (transactions exState). t_id t \<noteq> ''42''"
    by (simp add: ex_defs)
  have "transactions (handleDelete ''1706961600000'' exState) = [exT2, exT3]"
    by (simp add: handleDelete_def ex_defs)
  with none handleDelete_absent_idempotent [of "''1706961600000''" exState]
    handleDelete_absent_idempotent [of "''42''" exState]
  show ?thesis by blast
qed

text \<open>
  \<^bold>\<open>C10\<close>. \<^verbatim>\<open>handleDelete\<close> removes every record whose id is the given one, however many
  there are, in one call: the result is the list of the others, a subsequence of the
  collection in which each record with another id occurs as often as before, and the lengths
  of what is removed and what stays add up.
\<close>

theorem handleDelete_all_matches_in_order:
  "transactions (handleDelete i s) = filter (\<lambda>t. t_id t \<noteq> i) (transactions s)
   \<and> i \<notin> t_id ` set (transactions (handleDelete i s))
   \<and> subseq (transactions (handleDelete i s)) (transactions s)
   \<and> (\<forall>t. t_id t \<noteq> i \<longrightarrow>
         count_list (transactions (handleDelete i s)) t = count_list (transactions s) t)
   \<and> length (transactions (handleDelete i s)) + length (filter (\<lambda>t. t_id t = i) (transactions s))
       = length (transactions s)"
proof -
  have "length (filter (\<lambda>t. t_id t \<noteq> i) (transactions s)) + length (filter (\<lambda>t. t_id t = i) (transactions s))
        = length (transactions s)"
    using sum_length_filter_compl [of "\<lambda>t. t_id t = i" "transactions s"] by simp
  then show ?thesis
    by (auto simp: handleDelete_def count_list_filter_keep)
qed

theorem handleDelete_all_matches_in_order_witness:
  "transactions (handleDelete (t_id exT1) exDupState) = [exT2, exT3]
   \<and> count_list (transactions (handleDelete (t_id exT1) exDupState)) exT3 = 1
   \<and> length (transactions exTwiceState) = 2
   \<and> transactions (handleDelete ''1706961600000'' exTwiceState) = []"
proof -
  have two: "length (transactions exTwiceState) = 2"
    and gone: "filter (\<lambda>t. t_id t \<noteq> ''1706961600000'') (transactions exTwiceState) = []"
    by (simp_all add: exTwiceState_transactions)
  from handleDelete_all_matches_in_order [of "''1706961600000''" exTwiceState] gone
  have both: "transactions (handleDelete ''1706961600000'' exTwiceState) = []" by simp
  have ne: "t_id exT3 \<noteq> t_id exT1" by (simp add: ex_defs)
  have c: "count_list (transactions exDupState) exT3 = 1" by (simp add: exDupState_def ex_defs)
  have f: "filter (\<lambda>t. t_id t \<noteq> t_id exT1) (transactions exDupState) = [exT2, exT3]"
    by (simp add: exDupState_def ex_defs)
  from handleDelete_all_matches_in_order [of "t_id exT1" exDupState]
  have 1: "transactions (handleDelete (t_id exT1) exDupState)
           = filter (\<lambda>t. t_id t \<noteq> t_id exT1) (transactions exDupState)"
    and 2: "\<forall>t. t_id t \<noteq> t_id exT1 \<longrightarrow>
         count_list (transactions (handleDelete (t_id exT1) exDupState)) t
         = count_list (transactions exDupState) t"
    by blast+
  from 2 ne have "count_list (transactions (handleDelete (t_id exT1) exDupState)) exT3
      = count_list (transactions exDupState) exT3" by blast
  with 1 f c two both show ?thesis by (simp only: simp_thms)
qed






text \<open>
  \<^bold>\<open>C2\<close>, as stated, fails: the amount \<^verbatim>\<open>abc\<close> is not empty, \<^verbatim>\<open>parseFloat\<close> gives \<open>NaN\<close>
  for it, and \<^verbatim>\<open>NaN <= 0\<close> is false, so no amount error is set and the payload passes.
\<close>

theorem validateForm_accepts_unparsed_amount:
  "f_amount exBadForm = ''abc'' \<and> parseFloat ''abc'' = NaN
   \<and> map_of (newErrors exBadForm) ''amount'' = None \<and> newErrors exBadForm = []"
proof -
  have p: "parseFloat ''abc'' = NaN" by code_simp
  have t: "trim ''Lunch'' = ''Lunch''" by code_simp
  show ?thesis by (simp add: exBadForm_def newErrors_def p t)
qed

text \<open>
  \<^bold>\<open>C2\<close>, amended. An amount that is empty, or for which \<^verbatim>\<open>parseFloat(amount) <= 0\<close>
  holds, gets the error \<^verbatim>\<open>Amount must be greater than 0\<close> whatever the other fields hold.
  A non-empty amount that \<^verbatim>\<open>parseFloat\<close> reads as \<open>NaN\<close> gets no amount error.
\<close>

theorem newErrors_amount:
  "(f_amount fd = [] \<or> num_le (parseFloat (f_amount fd)) (Fin 0)
      \<longrightarrow> map_of (newErrors fd) ''amount'' = Some ''Amount must be greater than 0'')
   \<and> (f_amount fd \<noteq> [] \<and> parseFloat (f_amount fd) = NaN \<longrightarrow> map_of (newErrors fd) ''amount'' = None)"
  by (simp add: newErrors_def Let_def update_conv')

theorem newErrors_amount_witness:
  "map_of (newErrors (exForm\<lparr>f_amount := ''-5''\<rparr>)) ''amount'' = Some ''Amount must be greater than 0''
   \<and> map_of (newErrors (exForm\<lparr>f_amount := ''0''\<rparr>)) ''amount'' = Some ''Amount must be greater than 0''
   \<and> map_of (newErrors (emptyForm\<lparr>f_amount := ''x1''\<rparr>)) ''amount'' = None"
proof -
  have a: "parseFloat ''-5'' = Fin (- 5)" by code_simp
  have b: "parseFloat ''0'' = Fin 0" by code_simp
  have c: "parseFloat ''x1'' = NaN" by code_simp
  show ?thesis
    using newErrors_amount [of "exForm\<lparr>f_amount := ''-5''\<rparr>"]
      newErrors_amount [of "exForm\<lparr>f_amount := ''0''\<rparr>"]
      newErrors_amount [of "emptyForm\<lparr>f_amount := ''x1''\<rparr>"]
    by (simp add: a b c)
qed

subsection \<open>Adding and editing\<close>






subsection \<open>The aggregates\<close>



lemma ex_parse:
  "parseISO ''2024-02-03'' = Some \<lparr>d_year = 2024, d_month = 1, d_day = 3, d_ms = 0\<rparr>"
  "parseISO ''2024-02-01'' = Some \<lparr>d_year = 2024, d_month = 1, d_day = 1, d_ms = 0\<rparr>"
  "parseISO ''2023-03-15'' = Some \<lparr>d_year = 2023, d_month = 2, d_day = 15, d_ms = 0\<rparr>"
  "parseISO ''2023-02-10'' = Some \<lparr>d_year = 2023, d_month = 1, d_day = 10, d_ms = 0\<rparr>"
  "parseISO ''2024-02-29'' = Some \<lparr>d_year = 2024, d_month = 1, d_day = 29, d_ms = 0\<rparr>"
  by code_simp+

lemma ex_round:
  "round2 (Fin (401 / 100)) = Fin (401 / 100)"
  "round2 (Fin (2501 / 200)) = Fin (1251 / 100)"
  "round2 (Fin (10301 / 100)) = Fin (10301 / 100)"
  by code_simp+



lemma round2_Fin: "round2 (Fin x) = Fin (of_int \<lfloor>x * 100 + 1 / 2\<rfloor> / 100)"
  by (simp add: round2_def)

lemma round2_zero_iff:
  assumes "num_less (Fin 0) x"
  shows "(round2 x = Fin 0) = num_less x (Fin (1 / 200))"
proof (cases x)
  case (Fin q)
  with assms have q: "0 < q" by simp
  have "(\<lfloor>q * 100 + 1 / 2\<rfloor> = 0) = (q < 1 / 200)"
  proof
    assume "\<lfloor>q * 100 + 1 / 2\<rfloor> = 0"
    then have "q * 100 + 1 / 2 < 1" by (simp add: floor_eq_iff)
    then show "q < 1 / 200" by simp
  next
    assume "q < 1 / 200"
    with q have "0 \<le> q * 100 + 1 / 2" "q * 100 + 1 / 2 < 1" by simp_all
    then show "\<lfloor>q * 100 + 1 / 2\<rfloor> = 0" by (simp add: floor_eq_iff)
  qed
  with Fin show ?thesis by (simp add: round2_Fin)
qed (use assms in \<open>simp_all add: round2_def inf_of_sign_def\<close>)

text \<open>
  \<^bold>\<open>C5\<close>, as stated, fails: a single expense of \<open>0.004\<close> gives its category a row, and
  the amount of that row is \<^verbatim>\<open>Math.round(0.4) / 100\<close>, which is \<open>0\<close>.
\<close>

theorem getCategoryData_row_rounds_to_zero:
  "t_type exTiny = expense \<and> num_less (Fin 0) (t_amount exTiny)
   \<and> t_category exTiny \<in> set CATEGORIES
   \<and> getCategoryData [exTiny] = [(''Shopping'', Fin 0)]"
proof -
  have r: "round2 (Fin (1 / 250)) = Fin 0" by code_simp
  show ?thesis
    by (simp add: exTiny_def CATEGORIES_def getCategoryData_def addCategory_def num_or0_def r)
qed

text \<open>
  \<^bold>\<open>C5\<close>, amended. For a collection whose expenses have an amount above \<open>0\<close> and a
  category of the fixed list, \<^verbatim>\<open>getCategoryData\<close> has one row for each category that some
  expense carries and no other row. The amount of a row is \<^verbatim>\<open>Math.round(sum * 100) / 100\<close>
  of the sum of that category's expense amounts. That sum is above \<open>0\<close>, never exactly
  \<open>0\<close>; the amount of the row is \<open>0\<close> exactly when the sum is below half a cent.
\<close>

theorem getCategoryData_rows:
  assumes "\<forall>t \<in> set ts. t_type t = expense \<longrightarrow>
             num_less (Fin 0) (t_amount t) \<and> t_category t \<in> set CATEGORIES"
  shows "distinct (map fst (getCategoryData ts))
     \<and> fst ` set (getCategoryData ts) = t_category ` {t \<in> set ts. t_type t = expense}
     \<and> (\<forall>(c, a) \<in> set (getCategoryData ts).
           a = round2 (sumAmounts (filter (\<lambda>t. t_type t = expense \<and> t_category t = c) ts))
           \<and> num_less (Fin 0) (sumAmounts (filter (\<lambda>t. t_type t = expense \<and> t_category t = c) ts))
           \<and> sumAmounts (filter (\<lambda>t. t_type t = expense \<and> t_category t = c) ts) \<noteq> Fin 0
           \<and> (a = Fin 0) = num_less
                 (sumAmounts (filter (\<lambda>t. t_type t = expense \<and> t_category t = c) ts)) (Fin (1 / 200)))"
proof -
  let ?es = "filter (\<lambda>t. t_type t = expense) ts"
  let ?cd = "foldl addCategory [] ?es"
  have rows: "getCategoryData ts = map (\<lambda>(c, a). (c, round2 a)) ?cd"
    by (simp add: getCategoryData_def)
  have e0: "\<forall>k v. map_of ([] :: number dict) k = Some v \<longrightarrow> num_less (Fin 0) v" by simp
  have pos: "\<forall>t \<in> set ?es. num_less (Fin 0) (t_amount t)" using assms by simp
  have m: "map_of ?cd c = (if c \<notin> t_category ` set ?es then None
      else Some (sumAmounts (filter (\<lambda>t. t_type t = expense \<and> t_category t = c) ts)))" for c
    using foldl_addCategory_map_of [OF e0 pos, of c]
    by (simp add: num_or0_def sumAmounts_sumFrom conj_commute)
  have vpos: "\<forall>k v. map_of ?cd k = Some v \<longrightarrow> num_less (Fin 0) v"
    using e0 pos by (rule foldl_addCategory_pos)
  have dcd: "distinct (map fst ?cd)"
    by (rule foldl_addCategory_distinct) simp
  have keys: "map fst (getCategoryData ts) = map fst ?cd"
    by (simp add: rows comp_def case_prod_unfold)
  have d: "distinct (map fst (getCategoryData ts))" using dcd keys by simp
  have "fst ` set (getCategoryData ts) = set (map fst (getCategoryData ts))" by simp
  also have "\<dots> = fst ` set ?cd" by (simp only: keys set_map)
  also have "\<dots> = dom (map_of ?cd)" by (simp add: dom_map_of_conv_image_fst)
  also have "\<dots> = t_category ` set ?es" by (auto simp: dom_def m)
  also have "\<dots> = t_category ` {t \<in> set ts. t_type t = expense}" by simp
  finally have k: "fst ` set (getCategoryData ts) = t_category ` {t \<in> set ts. t_type t = expense}" .
  have v: "\<forall>(c, a) \<in> set (getCategoryData ts).
           a = round2 (sumAmounts (filter (\<lambda>t. t_type t = expense \<and> t_category t = c) ts))
           \<and> num_less (Fin 0) (sumAmounts (filter (\<lambda>t. t_type t = expense \<and> t_category t = c) ts))
           \<and> sumAmounts (filter (\<lambda>t. t_type t = expense \<and> t_category t = c) ts) \<noteq> Fin 0
           \<and> (a = Fin 0) = num_less
                 (sumAmounts (filter (\<lambda>t. t_type t = expense \<and> t_category t = c) ts)) (Fin (1 / 200))"
  proof (clarify)
    fix c a assume "(c, a) \<in> set (getCategoryData ts)"
    then obtain a' where in_cd: "(c, a') \<in> set ?cd" and a: "a = round2 a'"
      by (auto simp: rows)
    from dcd in_cd have s: "map_of ?cd c = Some a'" by (rule map_of_is_SomeI)
    with vpos have p: "num_less (Fin 0) a'" by blast
    from s have a': "a' = sumAmounts (filter (\<lambda>t. t_type t = expense \<and> t_category t = c) ts)"
      by (simp add: m split: if_splits)
    from p have "a' \<noteq> Fin 0" by auto
    moreover from a round2_zero_iff [OF p] have "(a = Fin 0) = num_less a' (Fin (1 / 200))" by simp
    ultimately show "a = round2 (sumAmounts (filter (\<lambda>t. t_type t = expense \<and> t_category t = c) ts))
           \<and> num_less (Fin 0) (sumAmounts (filter (\<lambda>t. t_type t = expense \<and> t_category t = c) ts))
           \<and> sumAmounts (filter (\<lambda>t. t_type t = expense \<and> t_category t = c) ts) \<noteq> Fin 0
           \<and> (a = Fin 0) = num_less
                 (sumAmounts (filter (\<lambda>t. t_type t = expense \<and> t_category t = c) ts)) (Fin (1 / 200))"
      using a a' p by simp
  qed
  from d k v show ?thesis by blast
qed

theorem getCategoryData_rows_witness:
  "distinct (map fst (getCategoryData exTs))
   \<and> fst ` set (getCategoryData exTs) = {''Food & Dining'', ''Travel''}
   \<and> (''Travel'', Fin (10301 / 100)) \<in> set (getCategoryData exTs)
   \<and> (''Food & Dining'', Fin (1251 / 100)) \<in> set (getCategoryData exTs)"
proof -
  have h: "\<forall>t \<in> set exTs. t_type t = expense \<longrightarrow>
             num_less (Fin 0) (t_amount t) \<and> t_category t \<in> set CATEGORIES"
    by (simp add: exTs_defs CATEGORIES_def)
  note T = getCategoryData_rows [OF h]
  from T have d: "distinct (map fst (getCategoryData exTs))" by blast
  from T have "fst ` set (getCategoryData exTs) = t_category ` {t \<in> set exTs. t_type t = expense}"
    by blast
  also have "\<dots> = set (map t_category (filter (\<lambda>t. t_type t = expense) exTs))"
    by simp
  also have "\<dots> = {''Food & Dining'', ''Travel''}"
    by (auto simp: exTs_defs)
  finally have k: "fst ` set (getCategoryData exTs) = {''Food & Dining'', ''Travel''}" .
  from T have v: "\<And>c a. (c, a) \<in> set (getCategoryData exTs) \<Longrightarrow>
      a = round2 (sumAmounts (filter (\<lambda>t. t_type t = expense \<and> t_category t = c) exTs))"
    by blast
  have s1: "round2 (sumAmounts (filter (\<lambda>t. t_type t = expense \<and> t_category t = ''Travel'') exTs))
      = Fin (10301 / 100)"
    by (simp add: exTs_defs sumAmounts_def ex_round)
  have s2: "round2 (sumAmounts (filter (\<lambda>t. t_type t = expense \<and> t_category t = ''Food & Dining'') exTs))
      = Fin (1251 / 100)"
    by (simp add: exTs_defs sumAmounts_def ex_round)
  have "''Travel'' \<in> fst ` set (getCategoryData exTs)" by (subst k) simp
  then obtain a1 where a1: "(''Travel'', a1) \<in> set (getCategoryData exTs)"
    by (auto simp: image_iff)
  have "''Food & Dining'' \<in> fst ` set (getCategoryData exTs)" by (subst k) simp
  then obtain a2 where a2: "(''Food & Dining'', a2) \<in> set (getCategoryData exTs)"
    by (auto simp: image_iff)
  from v [OF a1] s1 a1 have m1: "(''Travel'', Fin (10301 / 100)) \<in> set (getCategoryData exTs)" by simp
  from v [OF a2] s2 a2 have m2: "(''Food & Dining'', Fin (1251 / 100)) \<in> set (getCategoryData exTs)" by simp
  from d k m1 m2 show ?thesis by blast
qed

text \<open>
  \<^bold>\<open>C8\<close>. For a collection of calendar-form dates, \<^verbatim>\<open>totalIncome\<close> is the sum of the
  amounts of the incomes dated in the month and year of the evaluation time,
  \<^verbatim>\<open>totalExpenses\<close> the same sum over the expenses, and \<^verbatim>\<open>netIncome\<close> their difference.
  The sums are the plain \<^verbatim>\<open>reduce\<close> from \<open>0\<close>: \<^const>\<open>round2\<close> is applied nowhere, and the
  interval test never raises.
\<close>

theorem totals_of_current_month:
  assumes "d_month now < 12" and "\<forall>t \<in> set ts. calendarForm (t_date t)"
  shows "totals now ts = Inr
     \<lparr>totalIncome = sumAmounts (filter (\<lambda>t. t_type t = income \<and> inMonth (monthNumber now) t) ts),
      totalExpenses = sumAmounts (filter (\<lambda>t. t_type t = expense \<and> inMonth (monthNumber now) t) ts),
      netIncome = num_sub
         (sumAmounts (filter (\<lambda>t. t_type t = income \<and> inMonth (monthNumber now) t) ts))
         (sumAmounts (filter (\<lambda>t. t_type t = expense \<and> inMonth (monthNumber now) t) ts))\<rparr>"
  using currentMonthTransactions_eq [OF assms(1), of ts]
  by (simp add: totals_def Let_def conj_commute)

theorem totals_of_current_month_witness:
  "totals exNow exTs =
     Inr \<lparr>totalIncome = Fin 3000, totalExpenses = Fin (2501 / 200), netIncome = Fin (597499 / 200)\<rparr>"
proof -
  have h1: "d_month exNow < 12" by (simp add: exNow_def)
  have h2: "\<forall>t \<in> set exTs. calendarForm (t_date t)"
    by (simp add: exTs_defs calendarForm_def isDigit_def)
  have i: "sumAmounts (filter (\<lambda>t. t_type t = income \<and> inMonth (monthNumber exNow) t) exTs)
      = Fin 3000"
    by (simp add: exNow_def exTs_defs inMonth_def ex_parse monthNumber_def sumAmounts_def)
  have e: "sumAmounts (filter (\<lambda>t. t_type t = expense \<and> inMonth (monthNumber exNow) t) exTs)
      = Fin (2501 / 200)"
    by (simp add: exNow_def exTs_defs inMonth_def ex_parse monthNumber_def sumAmounts_def)
  have n: "num_sub (Fin 3000) (Fin (2501 / 200)) = Fin (597499 / 200)"
    by (simp add: num_sub_def)
  show ?thesis
    using totals_of_current_month [OF h1 h2] by (simp only: i e n)
qed

subsection \<open>Loading\<close>

lemma JSON_parse_bad_start:
  assumes ws: "\<not> isJSONWhiteSpace c" and st: "c \<notin> set ''{[-0123456789tfn''"
    and q: "c \<noteq> CHR 0x22"
  shows "JSON_parse (c # r) = Inl SyntaxError"
proof -
  from st have ne: "c \<noteq> CHR ''{''" "c \<noteq> CHR ''[''" "c \<noteq> CHR ''-''" "c \<noteq> CHR ''0''"
      "c \<noteq> CHR ''t''" "c \<noteq> CHR ''f''" "c \<noteq> CHR ''n''"
    and d: "\<not> isDigit c"
    by (simp_all add: isDigit_def)
  have num: "readNumber (c # r) = None"
    using ne(3,4) d by (simp add: readNumber_def Let_def)
  from ne(5,6,7) have lit: "CHR ''t'' \<noteq> c" "CHR ''f'' \<noteq> c" "CHR ''n'' \<noteq> c"
    by blast+
  have tk: "tokens (c # r) =
      (if c = CHR ''}'' then map_option (Cons TRBrace) (tokens r)
       else if c = CHR '']'' then map_option (Cons TRBracket) (tokens r)
       else if c = CHR '':'' then map_option (Cons TColon) (tokens r)
       else if c = CHR '','' then map_option (Cons TComma) (tokens r)
       else None)"
    using ws ne(1,2) q num lit by simp
  show ?thesis
    by (cases "tokens r") (simp_all add: JSON_parse_def tk del: tokens.simps)
qed

text \<open>
  \<^bold>\<open>C1\<close>, amended. When the slot is missing or holds the empty text, the load leaves the
  collection empty. For any other content the load is \<^verbatim>\<open>JSON.parse\<close> of it and nothing
  more: the parsed value becomes the collection whatever its shape, and the
  \<^verbatim>\<open>SyntaxError\<close> of a text that is not JSON leaves the effect uncaught, as it does for every
  text whose first character is neither white space nor the start of a JSON value. No other
  error arises.
\<close>

theorem load_takes_what_JSON_parse_gives:
  "load None = Inr (JArray [])
   \<and> load (Some []) = Inr (JArray [])
   \<and> (text \<noteq> [] \<longrightarrow> load (Some text) = JSON_parse text)
   \<and> (\<forall>c r. text = c # r \<and> \<not> isJSONWhiteSpace c \<and> c \<noteq> CHR 0x22
          \<and> c \<notin> set ''{[-0123456789tfn'' \<longrightarrow> load (Some text) = Inl SyntaxError)
   \<and> load saved \<noteq> Inl RangeError"
proof -
  have a: "load None = Inr (JArray [])" "load (Some []) = Inr (JArray [])"
    by (simp_all add: load_def)
  have b: "text \<noteq> [] \<longrightarrow> load (Some text) = JSON_parse text"
    by (simp add: load_def)
  have c: "\<forall>c r. text = c # r \<and> \<not> isJSONWhiteSpace c \<and> c \<noteq> CHR 0x22
          \<and> c \<notin> set ''{[-0123456789tfn'' \<longrightarrow> load (Some text) = Inl SyntaxError"
    using JSON_parse_bad_start by (auto simp: load_def)
  have "JSON_parse s \<noteq> Inl RangeError" for s
    by (simp add: JSON_parse_def split: option.splits pstate.splits)
  then have d: "load saved \<noteq> Inl RangeError"
    by (simp add: load_def split: option.splits)
  from a b c d show ?thesis by blast
qed

lemma JSON_parse_exStored:
  "JSON_parse exStored =
     Inr (JArray [JObject [(units ''id'', JString (units ''1706961600000'')),
                           (units ''amount'', JNumber (Fin (25 / 2))),
                           (units ''type'', JString (units ''expense''))]])"
  by code_simp

theorem load_takes_what_JSON_parse_gives_witness:
  "load (Some exStored) =
     Inr (JArray [JObject [(units ''id'', JString (units ''1706961600000'')),
                           (units ''amount'', JNumber (Fin (25 / 2))),
                           (units ''type'', JString (units ''expense''))]])
   \<and> load (Some ''oops'') = Inl SyntaxError"
proof -
  have ne: "exStored \<noteq> []" by (simp add: exStored_def)
  have w: "\<not> isJSONWhiteSpace CHR ''o''" by (simp add: isJSONWhiteSpace_def)
  from load_takes_what_JSON_parse_gives [of exStored] ne
  have 1: "load (Some exStored) = JSON_parse exStored" by blast
  from load_takes_what_JSON_parse_gives [of "''oops''"]
  have "\<forall>c r. ''oops'' = c # r \<and> \<not> isJSONWhiteSpace c \<and> c \<noteq> CHR 0x22
          \<and> c \<notin> set ''{[-0123456789tfn'' \<longrightarrow> load (Some ''oops'') = Inl SyntaxError"
    by blast
  then have "''oops'' = CHR ''o'' # ''ops'' \<and> \<not> isJSONWhiteSpace CHR ''o'' \<and> CHR ''o'' \<noteq> CHR 0x22
          \<and> CHR ''o'' \<notin> set ''{[-0123456789tfn'' \<longrightarrow> load (Some ''oops'') = Inl SyntaxError"
    by blast
  with w have 2: "load (Some ''oops'') = Inl SyntaxError" by simp
  from 1 2 show ?thesis by (simp only: JSON_parse_exStored simp_thms)
qed

text \<open>
  \<^bold>\<open>C1\<close>, as stated, fails: on the truncated content \<^verbatim>\<open>[{\<close> the load raises a
  \<^verbatim>\<open>SyntaxError\<close> instead of giving the empty collection, and on the content \<^verbatim>\<open>5\<close>, which
  parses but is no array, the collection becomes the number \<open>5\<close>.
\<close>

theorem load_raises_on_corrupt_content:
  "load (Some ''[{'') = Inl SyntaxError \<and> load (Some ''[{'') \<noteq> Inr (JArray [])
   \<and> load (Some ''5'') = Inr (JNumber (Fin 5))"
proof -
  have "JSON_parse ''[{'' = Inl SyntaxError" by code_simp
  moreover have "JSON_parse ''5'' = Inr (JNumber (Fin 5))" by code_simp
  ultimately show ?thesis by (simp add: load_def)
qed

end
